theory Spec2Isabelle
  imports Main
begin

section \<open>JavaScript strings and numbers\<close>

text \<open>
  A JavaScript string is a sequence of UTF-16 code units. The model uses \<open>string\<close>, whose
  characters are the code units 0 to 255 (ASCII and the Latin-1 supplement); every library
  function below is written out for that range.
\<close>

definition code :: "char \<Rightarrow> nat" where
  "code c = of_char c"

text \<open>The character class \<open>[A-Z]\<close> (no \<open>i\<close> flag).\<close>

definition isUpperAZ :: "char \<Rightarrow> bool" where
  "isUpperAZ c = (65 \<le> code c \<and> code c \<le> 90)"

definition isDigit :: "char \<Rightarrow> bool" where
  "isDigit c = (48 \<le> code c \<and> code c \<le> 57)"

text \<open>
  White space and line terminators (\<open>\s\<close>, \<open>trim\<close>, the prefix \<open>parseInt\<close> skips):
  TAB, LF, VT, FF, CR, SP and NBSP are the ones below 256.
\<close>

definition isWhiteSpace :: "char \<Rightarrow> bool" where
  "isWhiteSpace c = (code c \<in> {9, 10, 11, 12, 13, 32, 160})"

text \<open>\<open>String.prototype.toLowerCase\<close>: A-Z and the Latin-1 capitals (all but the
  multiplication sign at 215) move up by 32.\<close>

definition lowerChar :: "char \<Rightarrow> char" where
  "lowerChar c =
     (if (65 \<le> code c \<and> code c \<le> 90) \<or> (192 \<le> code c \<and> code c \<le> 222 \<and> code c \<noteq> 215)
      then char_of (code c + 32) else c)"

definition toLowerCase :: "string \<Rightarrow> string" where
  "toLowerCase s = map lowerChar s"

definition trim :: "string \<Rightarrow> string" where
  "trim s = rev (dropWhile isWhiteSpace (rev (dropWhile isWhiteSpace s)))"

text \<open>\<open>Array.prototype.join\<close> on an array of strings.\<close>

fun join :: "string \<Rightarrow> string list \<Rightarrow> string" where
  "join sep [] = []"
| "join sep [x] = x"
| "join sep (x # y # ys) = x @ sep @ join sep (y # ys)"

text \<open>
  \<open>title.split(/(?=[A-Z])/)\<close>. The splitter of the language walks an index \<open>q\<close> over the
  string, with \<open>p\<close> the start of the current piece: the empty look-ahead match at \<open>q\<close> is
  ignored when \<open>q = p\<close>, and otherwise closes the piece \<open>S[p..q)\<close>. \<open>cur\<close> is that piece.
  On the empty string the look-ahead fails and the result is the array holding the string.
\<close>

fun splitLoop :: "string \<Rightarrow> string \<Rightarrow> string list" where
  "splitLoop cur [] = [cur]"
| "splitLoop cur (c # cs) =
     (if isUpperAZ c \<and> cur \<noteq> [] then cur # splitLoop [c] cs else splitLoop (cur @ [c]) cs)"

definition splitBeforeUpper :: "string \<Rightarrow> string list" where
  "splitBeforeUpper s = (if s = [] then [s] else splitLoop [] s)"

text \<open>Decimal digits of a natural number, as \<open>Number.prototype.toString\<close> prints an
  integer.\<close>

fun decimal :: "nat \<Rightarrow> string" where
  "decimal n = (if n < 10 then [char_of (48 + n)] else decimal (n div 10) @ [char_of (48 + n mod 10)])"

text \<open>
  The numbers the program handles are line numbers and weights. A weight is what
  \<open>Number.parseInt\<close> returns: \<open>NaN\<close> or an integer. \<open>Num n\<close> stands for the Number
  of value \<open>n\<close>; beyond \<open>2^53\<close> the language rounds to the nearest double, which this
  model does not follow.
\<close>

datatype js_number = NaN | Num int

definition numberToString :: "js_number \<Rightarrow> string" where
  "numberToString w =
     (case w of NaN \<Rightarrow> ''NaN''
      | Num n \<Rightarrow> (if n < 0 then ''-'' @ decimal (nat (- n)) else decimal (nat n)))"

fun digitsValue :: "nat \<Rightarrow> string \<Rightarrow> nat" where
  "digitsValue acc [] = acc"
| "digitsValue acc (c # cs) = digitsValue (10 * acc + (code c - 48)) cs"

text \<open>
  \<open>Number.parseInt(s, 10)\<close>: skip leading white space, read an optional sign, then the
  longest run of decimal digits; with no digit the result is \<open>NaN\<close>. Whatever follows the
  digits is ignored.
\<close>

definition parseInt :: "string \<Rightarrow> js_number" where
  "parseInt s =
     (let S = dropWhile isWhiteSpace s;
          neg = (case S of [] \<Rightarrow> False | c # _ \<Rightarrow> c = CHR ''-'');
          S' = (case S of [] \<Rightarrow> [] | c # cs \<Rightarrow> if c = CHR ''+'' \<or> c = CHR ''-'' then cs else S);
          Z = takeWhile isDigit S'
      in if Z = [] then NaN
         else Num ((if neg then - 1 else 1) * int (digitsValue 0 Z)))"

text \<open>\<open>a || b\<close> on an optional string: \<open>undefined\<close> and the empty string are falsy.\<close>

definition orElse :: "string option \<Rightarrow> string \<Rightarrow> string" where
  "orElse a b = (case a of None \<Rightarrow> b | Some s \<Rightarrow> if s = [] then b else s)"

text \<open>String concatenation with a value that may be \<open>undefined\<close>: \<open>'' + undefined\<close> is
  the text \<open>undefined\<close>.\<close>

definition toStringOpt :: "string option \<Rightarrow> string" where
  "toStringOpt a = (case a of None \<Rightarrow> ''undefined'' | Some s \<Rightarrow> s)"

section \<open>The syntax tree handed over by the compiler API\<close>

text \<open>
  The program reads the tree through the TypeScript compiler API; the model takes what
  those calls return. A JSDoc tag is its name (\<open>tag.tagName.text\<close>) and its comment
  (\<open>tag.comment\<close>, \<open>undefined\<close> when the tag has no text).
\<close>

record jsdoc_tag =
  tagName :: string
  comment :: "string option"

record parameter_decl =
  param_name :: string
  param_type :: "string option"

text \<open>A property or method signature: \<open>member.name.getText()\<close>, \<open>member.getText()\<close>,
  \<open>ts.getJSDocTags(member)\<close> and, when \<open>member.type\<close> is there, its \<open>getFullText()\<close>.\<close>

record signature_node =
  sig_name :: string
  sig_text :: string
  sig_tags :: "jsdoc_tag list"
  sig_type :: "string option"

datatype type_element =
    PropertySignature signature_node
  | MethodSignature signature_node "parameter_decl list"
  | OtherTypeElement

text \<open>An interface or type-alias declaration: \<open>statement.name.getText()\<close>, the texts of
  \<open>statement.typeParameters\<close> when present, and \<open>ts.getJSDocTags(statement)\<close>.\<close>

record declaration_node =
  decl_name :: string
  decl_typeParameters :: "string list option"
  decl_tags :: "jsdoc_tag list"

datatype statement =
    InterfaceDeclaration declaration_node "type_element list"
  | TypeAliasDeclaration declaration_node string
  | OtherStatement

section \<open>The records the generator builds\<close>

record member_info =
  m_name :: string
  m_description :: string
  m_type :: string
  m_fullText :: string

datatype member =
    PropertyInfo member_info string
  | MethodInfo member_info "(string \<times> string) list"

record declaration_info =
  sourceFile :: string
  sourceLine :: nat
  title :: string
  fullText :: string
  weight :: js_number
  category :: string
  description :: string
  fileName :: string

datatype info =
    InterfaceInfo declaration_info "member list"
  | TypeAliasInfo declaration_info string

fun base :: "info \<Rightarrow> declaration_info" where
  "base (InterfaceInfo d ms) = d"
| "base (TypeAliasInfo d t) = d"

section \<open>Tag dispatch\<close>

text \<open>
  An exception is a value: a function that may throw returns \<open>Inl e\<close> for the exception
  \<open>e\<close> and \<open>Inr v\<close> for the value \<open>v\<close> it returns. What a call that throws has
  changed before is not described.
\<close>

datatype js_error = TypeError | ENOENT | ENOTDIR | EISDIR | EEXIST

text \<open>
  \<open>parseTags\<close> looks the tag name up in an object literal, \<open>tagMatcher[tagName]\<close>, and
  calls what it finds when that is truthy. An object literal inherits from
  \<open>Object.prototype\<close>, so a name that is not a key of the literal may still find an
  inherited value. The inherited functions (\<open>constructor\<close>, \<open>toString\<close>,
  \<open>hasOwnProperty\<close>, ...) return without touching the variables the handlers assign;
  three names end in a TypeError: \<open>__proto__\<close> finds an object that is not callable, and
  \<open>__defineGetter__\<close>, \<open>__defineSetter__\<close> reject the missing accessor function.
\<close>

definition inheritedThrowing :: "string list" where
  "inheritedThrowing = [''__proto__'', ''__defineGetter__'', ''__defineSetter__'']"

type_synonym 's tag_matcher = "(string \<times> (jsdoc_tag \<Rightarrow> 's \<Rightarrow> 's)) list"

fun parseTags :: "jsdoc_tag list \<Rightarrow> 's tag_matcher \<Rightarrow> 's \<Rightarrow> js_error + 's" where
  "parseTags [] tagMatcher st = Inr st"
| "parseTags (tag # tags) tagMatcher st =
     (case map_of tagMatcher (tagName tag) of
        Some handler \<Rightarrow> parseTags tags tagMatcher (handler tag st)
      | None \<Rightarrow>
          if tagName tag \<in> set inheritedThrowing then Inl TypeError
          else parseTags tags tagMatcher st)"

text \<open>\<open>getDocsCategory\<close>: the state is the local \<open>category\<close>, \<open>undefined\<close> at first.\<close>

definition getDocsCategory :: "declaration_node \<Rightarrow> js_error + string option" where
  "getDocsCategory d =
     parseTags (decl_tags d)
       [(''docsCategory'', \<lambda>tag category. Some (orElse (comment tag) ''''))] None"

text \<open>\<open>getDeclarationWeight\<close>: the state is the local \<open>weight\<close>, 10 at first.\<close>

definition getDeclarationWeight :: "declaration_node \<Rightarrow> js_error + js_number" where
  "getDeclarationWeight d =
     parseTags (decl_tags d)
       [(''docsWeight'', \<lambda>tag weight. parseInt (orElse (comment tag) ''10''))] (Num 10)"

text \<open>\<open>getDeclarationDescription\<close>: the state is the local \<open>description\<close>.\<close>

definition getDeclarationDescription :: "declaration_node \<Rightarrow> js_error + string" where
  "getDeclarationDescription d =
     parseTags (decl_tags d)
       [(''description'', \<lambda>tag description. description @ toStringOpt (comment tag))] []"

definition getDeclarationFullText :: "declaration_node \<Rightarrow> string" where
  "getDeclarationFullText d =
     decl_name d @
     (case decl_typeParameters d of
        None \<Rightarrow> []
      | Some tps \<Rightarrow> ''<'' @ join '', '' tps @ ''>'')"

section \<open>Members\<close>

text \<open>
  \<open>formatExampleCode\<close> removes every match of \<open>/\n\s+\*\s/g\<close>: a line feed, a run of
  white space, an asterisk and one more white-space character. The asterisk is not white
  space, so only the longest run can be followed by it. \<open>exampleMatch s\<close> is what follows
  a match at the head of \<open>s\<close>.
\<close>

definition exampleMatch :: "string \<Rightarrow> string option" where
  "exampleMatch s =
     (case s of
        [] \<Rightarrow> None
      | c # cs \<Rightarrow>
          if c \<noteq> CHR ''\<newline>'' \<or> takeWhile isWhiteSpace cs = [] then None
          else (case dropWhile isWhiteSpace cs of
                  a # b # r \<Rightarrow> if a = CHR ''*'' \<and> isWhiteSpace b then Some r else None
                | _ \<Rightarrow> None))"

function stripExample :: "string \<Rightarrow> string" where
  "stripExample [] = []"
| "stripExample (c # cs) =
     (case exampleMatch (c # cs) of
        Some r \<Rightarrow> stripExample r
      | None \<Rightarrow> c # stripExample cs)"
  by pat_completeness auto
termination
proof (relation "measure length")
  fix c cs r
  assume a: "exampleMatch (c # cs) = Some r"
  then obtain x y where "dropWhile isWhiteSpace cs = x # y # r"
    by (auto simp: exampleMatch_def split: if_splits list.splits)
  then have "length r < length (dropWhile isWhiteSpace cs)" by simp
  also have "\<dots> \<le> length cs" by (rule length_dropWhile_le)
  finally show "(r, c # cs) \<in> measure length" by simp
qed simp_all

text \<open>The parameter defaults to the empty string when the tag has no comment.\<close>

definition formatExampleCode :: "string option \<Rightarrow> string" where
  "formatExampleCode example =
     ''\<newline>\<newline>'' @ stripExample (case example of None \<Rightarrow> [] | Some e \<Rightarrow> e)"

text \<open>The handlers of \<open>parseMembers\<close> assign the locals \<open>description\<close> and
  \<open>defaultValue\<close>; the state is that pair, both empty at first.\<close>

definition memberMatcher :: "(string \<times> string) tag_matcher" where
  "memberMatcher =
     [(''description'', \<lambda>tag (description, defaultValue).
          (description @ orElse (comment tag) [], defaultValue)),
      (''example'', \<lambda>tag (description, defaultValue).
          (description @ formatExampleCode (comment tag), defaultValue)),
      (''default'', \<lambda>tag (description, defaultValue).
          (description, orElse (comment tag) []))]"

definition memberInfo :: "signature_node \<Rightarrow> string \<Rightarrow> member_info" where
  "memberInfo s desc =
     \<lparr> m_name = sig_name s,
       m_description = desc,
       m_type = (case sig_type s of None \<Rightarrow> [] | Some t \<Rightarrow> trim t),
       m_fullText = sig_text s \<rparr>"

text \<open>One turn of the loop of \<open>parseMembers\<close>: what it pushes, if anything.\<close>

fun parseMember :: "type_element \<Rightarrow> js_error + member option" where
  "parseMember (PropertySignature s) =
     (case parseTags (sig_tags s) memberMatcher ([], []) of
        Inl e \<Rightarrow> Inl e
      | Inr (desc, defaultValue) \<Rightarrow> Inr (Some (PropertyInfo (memberInfo s desc) defaultValue)))"
| "parseMember (MethodSignature s ps) =
     (case parseTags (sig_tags s) memberMatcher ([], []) of
        Inl e \<Rightarrow> Inl e
      | Inr (desc, defaultValue) \<Rightarrow>
          Inr (Some (MethodInfo (memberInfo s desc)
                 (map (\<lambda>p. (param_name p, case param_type p of None \<Rightarrow> [] | Some t \<Rightarrow> t)) ps))))"
| "parseMember OtherTypeElement = Inr None"

fun parseMembers :: "type_element list \<Rightarrow> js_error + member list" where
  "parseMembers [] = Inr []"
| "parseMembers (m # ms) =
     (case parseMember m of
        Inl e \<Rightarrow> Inl e
      | Inr r \<Rightarrow>
          (case parseMembers ms of
             Inl e \<Rightarrow> Inl e
           | Inr rs \<Rightarrow> Inr (case r of None \<Rightarrow> rs | Some x \<Rightarrow> x # rs)))"

section \<open>Declarations\<close>


text \<open>The \<open>fileName\<close> of \<open>parseDeclaration\<close>: split before each capital, join with a
  hyphen, lower case.\<close>

definition slug :: "string \<Rightarrow> string" where
  "slug t = toLowerCase (join ''-'' (splitBeforeUpper t))"

text \<open>The part of \<open>parseDeclaration\<close> shared by both kinds of declaration: the early
  return on a missing category, then the fields of \<open>info\<close> in the order the source
  computes them. A statement that is no valid declaration returns \<open>undefined\<close> at
  once.\<close>

definition declarationInfo :: "declaration_node \<Rightarrow> string \<Rightarrow> nat \<Rightarrow> js_error + declaration_info option" where
  "declarationInfo d sf line =
     (case getDocsCategory d of
        Inl e \<Rightarrow> Inl e
      | Inr None \<Rightarrow> Inr None
      | Inr (Some cat) \<Rightarrow>
          (case getDeclarationWeight d of
             Inl e \<Rightarrow> Inl e
           | Inr w \<Rightarrow>
               (case getDeclarationDescription d of
                  Inl e \<Rightarrow> Inl e
                | Inr desc \<Rightarrow>
                    Inr (Some \<lparr> sourceFile = sf, sourceLine = line, title = decl_name d,
                                fullText = getDeclarationFullText d, weight = w, category = cat,
                                description = desc, fileName = slug (decl_name d) \<rparr>))))"

fun parseDeclaration :: "statement \<Rightarrow> string \<Rightarrow> nat \<Rightarrow> js_error + info option" where
  "parseDeclaration OtherStatement sf line = Inr None"
| "parseDeclaration (InterfaceDeclaration d members) sf line =
     (case declarationInfo d sf line of
        Inl e \<Rightarrow> Inl e
      | Inr None \<Rightarrow> Inr None
      | Inr (Some i) \<Rightarrow>
          (case parseMembers members of
             Inl e \<Rightarrow> Inl e
           | Inr ms \<Rightarrow> Inr (Some (InterfaceInfo i ms))))"
| "parseDeclaration (TypeAliasDeclaration d ty) sf line =
     (case declarationInfo d sf line of
        Inl e \<Rightarrow> Inl e
      | Inr None \<Rightarrow> Inr None
      | Inr (Some i) \<Rightarrow> Inr (Some (TypeAliasInfo i (trim ty))))"

section \<open>The Type Reference Index\<close>

text \<open>A \<open>Map\<close> iterates in insertion order; \<open>set\<close> on a key already present keeps the
  key's place and replaces its value.\<close>

type_synonym type_map = "(string \<times> string) list"

fun mapSet :: "string \<Rightarrow> string \<Rightarrow> type_map \<Rightarrow> type_map" where
  "mapSet k v [] = [(k, v)]"
| "mapSet k v ((k', v') # m) = (if k' = k then (k, v) # m else (k', v') # mapSet k v m)"

section \<open>Rendering\<close>

definition docsPath :: string where
  "docsPath = ''/docs/api/''"

fun isPrefix :: "string \<Rightarrow> string \<Rightarrow> bool" where
  "isPrefix [] s = True"
| "isPrefix (p # ps) [] = False"
| "isPrefix (p # ps) (c # cs) = (p = c \<and> isPrefix ps cs)"

text \<open>The first occurrence of \<open>pat\<close> in \<open>s\<close> (\<open>indexOf\<close>), as the text before it and the
  text after it.\<close>

fun splitAtFirst :: "string \<Rightarrow> string \<Rightarrow> (string \<times> string) option" where
  "splitAtFirst pat [] = (if pat = [] then Some ([], []) else None)"
| "splitAtFirst pat (c # cs) =
     (if isPrefix pat (c # cs) then Some ([], drop (length pat) (c # cs))
      else map_option (\<lambda>(b, a). (c # b, a)) (splitAtFirst pat cs))"

text \<open>
  The replacement text of \<open>String.prototype.replace\<close> is a template: two dollar signs
  give one, a dollar sign before an ampersand gives the matched text, before a backquote
  the text in front of the match, before a single quote the text behind it. With a string
  pattern there are no capture groups, so any other dollar sign stays.
\<close>

fun getSubstitution :: "string \<Rightarrow> string \<Rightarrow> string \<Rightarrow> string \<Rightarrow> string" where
  "getSubstitution matched front back [] = []"
| "getSubstitution matched front back [c] = [c]"
| "getSubstitution matched front back (c # d # cs) =
     (if c \<noteq> CHR ''$'' then c # getSubstitution matched front back (d # cs)
      else if d = CHR ''$'' then CHR ''$'' # getSubstitution matched front back cs
      else if d = CHR ''&'' then matched @ getSubstitution matched front back cs
      else if d = CHR 0x60 then front @ getSubstitution matched front back cs
      else if d = CHR 0x27 then back @ getSubstitution matched front back cs
      else c # getSubstitution matched front back (d # cs))"

text \<open>\<open>s.replace(pat, replacement)\<close> with a string pattern: the first occurrence only.\<close>

definition replace :: "string \<Rightarrow> string \<Rightarrow> string \<Rightarrow> string" where
  "replace s pat replacement =
     (case splitAtFirst pat s of
        None \<Rightarrow> s
      | Some (front, back) \<Rightarrow> front @ getSubstitution pat front back replacement @ back)"

text \<open>The global replacement of the class from U+00A0 to U+9999 plus the less-than
  sign, the greater-than sign and the ampersand, with the callback that writes a numeric
  character reference. No code unit below 160 folds into the range under the \<open>i\<close>
  flag.\<close>

definition encodeEntities :: "string \<Rightarrow> string" where
  "encodeEntities s =
     concat (map (\<lambda>c. if 160 \<le> code c \<or> c = CHR ''<'' \<or> c = CHR ''>'' \<or> c = CHR ''&''
                       then ''&#'' @ decimal (code c) @ '';'' else [c]) s)"

definition removeNewlines :: "string \<Rightarrow> string" where
  "removeNewlines s = map (\<lambda>c. if c = CHR ''\<newline>'' then CHR '' '' else c) s"

definition hyperlink :: "string \<Rightarrow> string \<Rightarrow> string" where
  "hyperlink key val =
     ''<a href='' @ [CHR 0x27] @ docsPath @ ''/'' @ val @ ''/'' @ [CHR 0x27] @ ''>'' @ key @ ''</a>''"

definition renderType :: "string \<Rightarrow> type_map \<Rightarrow> string" where
  "renderType ty knownTypeMap =
     fold (\<lambda>(key, val) typeText. replace typeText key (hyperlink key val))
          knownTypeMap (removeNewlines (encodeEntities (trim ty)))"

text \<open>\<open>generateFrontMatter\<close>; \<open>date\<close> is what \<open>new Date().toISOString()\<close> returns at the
  call.\<close>

definition generateFrontMatter :: "string \<Rightarrow> string \<Rightarrow> js_number \<Rightarrow> bool \<Rightarrow> string" where
  \<open>generateFrontMatter date ttl w showToc =
     ''---\<newline>title: "'' @ ttl @ ''"\<newline>weight: '' @ numberToString w @
     ''\<newline>date: '' @ date @
     ''\<newline>showtoc: '' @ (if showToc then ''true'' else ''false'') @
     ''\<newline>generated: true\<newline>---\<newline>'' @
     ''<!-- This file was generated from the Vendure TypeScript source. Do not modify. Instead, re-run "generate-docs" -->\<newline>''\<close>

definition renderGenerationInfoShortcode :: "declaration_info \<Rightarrow> string" where
  \<open>renderGenerationInfoShortcode i =
     ''{{< generation-info sourceFile="'' @ sourceFile i @ ''" sourceLine="'' @
     decimal (sourceLine i) @ ''">}}\<newline>\<newline>''\<close>

fun memberBase :: "member \<Rightarrow> member_info" where
  "memberBase (PropertyInfo m dv) = m"
| "memberBase (MethodInfo m ps) = m"

definition renderInterfaceSignature :: "declaration_info \<Rightarrow> member list \<Rightarrow> string" where
  "renderInterfaceSignature i members =
     ''```ts\<newline>'' @
     ''interface '' @ fullText i @ '' {\<newline>'' @
     join ''\<newline>'' (map (\<lambda>m. ''  '' @ m_fullText (memberBase m)) members) @
     ''\<newline>}\<newline>'' @
     ''```\<newline>''"

text \<open>The body of the loop over the members in \<open>renderInterface\<close>: the text it appends.\<close>

fun defaultParam :: "member \<Rightarrow> string" where
  \<open>defaultParam (PropertyInfo m dv) = (if dv \<noteq> [] then ''default="'' @ dv @ ''" '' else [])\<close>
| \<open>defaultParam (MethodInfo m ps) = []\<close>

fun memberKind :: "member \<Rightarrow> string" where
  "memberKind (PropertyInfo m dv) = ''property''"
| "memberKind (MethodInfo m ps) = ''method''"

fun memberType :: "member \<Rightarrow> type_map \<Rightarrow> string" where
  "memberType (PropertyInfo m dv) knownTypeMap = renderType (m_type m) knownTypeMap"
| "memberType (MethodInfo m ps) knownTypeMap =
     ''('' @ join '', '' (map (\<lambda>(n, t). n @ '': '' @ renderType t knownTypeMap) ps) @
     '') => '' @ renderType (m_type m) knownTypeMap"

definition renderMember :: "member \<Rightarrow> type_map \<Rightarrow> string" where
  \<open>renderMember m knownTypeMap =
     ''### '' @ m_name (memberBase m) @ ''\<newline>\<newline>'' @
     ''{{< member-info kind="'' @ memberKind m @ ''" type="'' @ memberType m knownTypeMap @
        ''" '' @ defaultParam m @ ''>}}\<newline>\<newline>'' @
     m_description (memberBase m) @ ''\<newline>\<newline>''\<close>

definition renderInterface :: "string \<Rightarrow> declaration_info \<Rightarrow> member list \<Rightarrow> type_map \<Rightarrow> string" where
  "renderInterface date i members knownTypeMap =
     generateFrontMatter date (title i) (weight i) True @
     ''\<newline>\<newline># '' @ title i @ ''\<newline>\<newline>'' @
     renderGenerationInfoShortcode i @
     description i @ ''\<newline>\<newline>'' @
     ''## Signature\<newline>\<newline>'' @
     renderInterfaceSignature i members @
     ''## Members\<newline>\<newline>'' @
     concat (map (\<lambda>m. renderMember m knownTypeMap) members)"

definition renderTypeAlias :: "string \<Rightarrow> declaration_info \<Rightarrow> string \<Rightarrow> type_map \<Rightarrow> string" where
  "renderTypeAlias date i ty knownTypeMap =
     generateFrontMatter date (title i) (weight i) True @
     ''\<newline>\<newline># '' @ title i @ ''\<newline>\<newline>'' @
     renderGenerationInfoShortcode i @
     description i @ ''\<newline>\<newline>'' @
     ''## Signature\<newline>\<newline>'' @
     ''```ts\<newline>type '' @ fullText i @ '' = '' @ ty @ '';\<newline>```''"

text \<open>The \<open>switch\<close> on \<open>info.kind\<close> in \<open>generateDocs\<close>.\<close>

fun render :: "string \<Rightarrow> info \<Rightarrow> type_map \<Rightarrow> string" where
  "render date (InterfaceInfo i members) typeMap = renderInterface date i members typeMap"
| "render date (TypeAliasInfo i ty) typeMap = renderTypeAlias date i ty typeMap"

section \<open>The file system and the platform\<close>

text \<open>
  The file system is the set of directories and the content of each regular file, by
  path. The functions of Node's \<open>path\<close> module and the directory walker \<open>klaw-sync\<close>
  are not part of the program: they are fields of a \<open>platform\<close>, together with
  \<open>parent\<close>, the directory an operation of the file system has to find for a path.
\<close>

record filesystem =
  dirs :: "string set"
  files :: "string \<rightharpoonup> string"

record platform =
  path_join :: "string \<Rightarrow> string \<Rightarrow> string"
  parent :: "string \<Rightarrow> string"
  klawSync :: "filesystem \<Rightarrow> string \<Rightarrow> string list"

definition existsSync :: "filesystem \<Rightarrow> string \<Rightarrow> bool" where
  "existsSync fs p = (p \<in> dirs fs \<or> files fs p \<noteq> None)"

definition noParent :: "platform \<Rightarrow> filesystem \<Rightarrow> string \<Rightarrow> js_error option" where
  "noParent pl fs p =
     (if parent pl p \<in> dirs fs then None
      else if files fs (parent pl p) \<noteq> None then Some ENOTDIR else Some ENOENT)"

definition mkdirSync :: "platform \<Rightarrow> filesystem \<Rightarrow> string \<Rightarrow> js_error + filesystem" where
  "mkdirSync pl fs p =
     (if existsSync fs p then Inl EEXIST
      else case noParent pl fs p of
             Some e \<Rightarrow> Inl e
           | None \<Rightarrow> Inr (fs\<lparr>dirs := insert p (dirs fs)\<rparr>))"

definition writeFileSync :: "platform \<Rightarrow> filesystem \<Rightarrow> string \<Rightarrow> string \<Rightarrow> js_error + filesystem" where
  "writeFileSync pl fs p content =
     (if p \<in> dirs fs then Inl EISDIR
      else case noParent pl fs p of
             Some e \<Rightarrow> Inl e
           | None \<Rightarrow> Inr (fs\<lparr>files := (files fs)(p \<mapsto> content)\<rparr>))"

definition readFileSync :: "filesystem \<Rightarrow> string \<Rightarrow> js_error + string" where
  "readFileSync fs p =
     (case files fs p of
        Some content \<Rightarrow> Inr content
      | None \<Rightarrow> if p \<in> dirs fs then Inl EISDIR else Inl ENOENT)"

definition unlinkSync :: "filesystem \<Rightarrow> string \<Rightarrow> js_error + filesystem" where
  "unlinkSync fs p =
     (case files fs p of
        Some content \<Rightarrow> Inr (fs\<lparr>files := (files fs)(p := None)\<rparr>)
      | None \<Rightarrow> if p \<in> dirs fs then Inl EISDIR else Inl ENOENT)"

section \<open>Deleting the generated documents\<close>

fun includesText :: "string \<Rightarrow> string \<Rightarrow> bool" where
  "includesText pat [] = (pat = [])"
| "includesText pat (c # cs) = (isPrefix pat (c # cs) \<or> includesText pat cs)"

text \<open>\<open>isGenerated\<close> tests a regular expression that is a literal text.\<close>

definition isGenerated :: "string \<Rightarrow> bool" where
  "isGenerated content = includesText ''generated: true\<newline>---\<newline>'' content"

text \<open>The loop of \<open>deleteGeneratedDocs\<close> over the paths \<open>klawSync\<close> returned, with the
  counter \<open>deleteCount\<close>; the count is returned, not printed.\<close>

fun deleteLoop :: "string list \<Rightarrow> filesystem \<Rightarrow> nat \<Rightarrow> js_error + filesystem \<times> nat" where
  "deleteLoop [] fs deleteCount = Inr (fs, deleteCount)"
| "deleteLoop (p # ps) fs deleteCount =
     (case readFileSync fs p of
        Inl e \<Rightarrow> Inl e
      | Inr content \<Rightarrow>
          if isGenerated content
          then (case unlinkSync fs p of
                  Inl e \<Rightarrow> Inl e
                | Inr fs' \<Rightarrow> deleteLoop ps fs' (deleteCount + 1))
          else deleteLoop ps fs deleteCount)"

definition deleteGeneratedDocs :: "platform \<Rightarrow> string \<Rightarrow> filesystem \<Rightarrow> js_error + filesystem \<times> nat" where
  "deleteGeneratedDocs pl outputPath fs = deleteLoop (klawSync pl fs outputPath) fs 0"

section \<open>Generating the documents\<close>

text \<open>A parsed source file: \<open>sf.fileName\<close> and \<open>sf.statements\<close>, each statement with the
  zero-based line of its start.\<close>

record source_file =
  sf_fileName :: string
  sf_statements :: "(statement \<times> nat) list"

text \<open>\<open>s.substring(s.indexOf(root))\<close>: the whole of \<open>s\<close> when \<open>root\<close> does not occur.\<close>

definition substringFrom :: "string \<Rightarrow> string \<Rightarrow> string" where
  "substringFrom root s =
     (case splitAtFirst root s of
        None \<Rightarrow> s
      | Some (front, back) \<Rightarrow> drop (length front) s)"

definition getStatementsWithSourceLocation :: "source_file list \<Rightarrow> (statement \<times> string \<times> nat) list" where
  "getStatementsWithSourceLocation sourceFiles =
     concat (map (\<lambda>sf. map (\<lambda>(statement, line).
                              (statement, substringFrom ''/server/src'' (sf_fileName sf), line + 1))
                          (sf_statements sf))
                 sourceFiles)"

text \<open>The \<open>map\<close> over the statements in \<open>generateDocs\<close>: each statement is parsed and,
  when it gives a record, its title is set in the type map.\<close>

definition register :: "info \<Rightarrow> type_map \<Rightarrow> type_map" where
  "register i typeMap =
     mapSet (title (base i)) (category (base i) @ ''/'' @ fileName (base i)) typeMap"

fun parseAll :: "(statement \<times> string \<times> nat) list \<Rightarrow> type_map \<Rightarrow> js_error + info option list \<times> type_map" where
  "parseAll [] typeMap = Inr ([], typeMap)"
| "parseAll ((statement, sf, line) # rest) typeMap =
     (case parseDeclaration statement sf line of
        Inl e \<Rightarrow> Inl e
      | Inr r \<Rightarrow>
          (case parseAll rest (case r of None \<Rightarrow> typeMap | Some i \<Rightarrow> register i typeMap) of
             Inl e \<Rightarrow> Inl e
           | Inr (rs, typeMap') \<Rightarrow> Inr (r # rs, typeMap')))"

text \<open>Modelled from the spec: \<open>notNullOrUndefined\<close> of \<open>shared/shared-utils\<close>, which is
  not among the sources; by its name and its use as the predicate of \<open>filter\<close>, it keeps
  the entries that are a record and drops \<open>undefined\<close>.\<close>

definition notNullOrUndefined :: "'a option \<Rightarrow> bool" where
  "notNullOrUndefined x = (x \<noteq> None)"

definition declarationInfos :: "info option list \<Rightarrow> info list" where
  "declarationInfos rs = map the (filter notNullOrUndefined rs)"

text \<open>
  One turn of the loop that renders and writes. \<open>clock k\<close> is the text of
  \<open>new Date().toISOString()\<close> at the \<open>k\<close>-th call of \<open>generateFrontMatter\<close>; the state is
  the file system and the number of calls so far.
\<close>

definition indexFileContent :: "string \<Rightarrow> string \<Rightarrow> string" where
  "indexFileContent date cat = generateFrontMatter date cat (Num 10) False @ ''\<newline>\<newline># '' @ cat"

text \<open>The two guarded steps of a turn: the directory of the category, then its index
  document, whose front matter takes one time stamp.\<close>

definition ensureDir :: "platform \<Rightarrow> filesystem \<Rightarrow> string \<Rightarrow> js_error + filesystem" where
  "ensureDir pl fs categoryDir =
     (if \<not> existsSync fs categoryDir then mkdirSync pl fs categoryDir else Inr fs)"

fun ensureIndex ::
  "platform \<Rightarrow> (nat \<Rightarrow> string) \<Rightarrow> string \<Rightarrow> string \<Rightarrow> filesystem \<times> nat \<Rightarrow> js_error + filesystem \<times> nat" where
  "ensureIndex pl clock cat indexFile (fs, n) =
     (if \<not> existsSync fs indexFile
      then (case writeFileSync pl fs indexFile (indexFileContent (clock n) cat) of
              Inl e \<Rightarrow> Inl e
            | Inr fs' \<Rightarrow> Inr (fs', n + 1))
      else Inr (fs, n))"

definition categoryDir :: "platform \<Rightarrow> string \<Rightarrow> info \<Rightarrow> string" where
  "categoryDir pl hugoApiDocsPath i = path_join pl hugoApiDocsPath (category (base i))"

definition indexFile :: "platform \<Rightarrow> string \<Rightarrow> info \<Rightarrow> string" where
  "indexFile pl hugoApiDocsPath i = path_join pl (categoryDir pl hugoApiDocsPath i) ''_index.md''"

definition docFile :: "platform \<Rightarrow> string \<Rightarrow> info \<Rightarrow> string" where
  "docFile pl hugoApiDocsPath i =
     path_join pl (categoryDir pl hugoApiDocsPath i) (fileName (base i) @ ''.md'')"

fun writeDoc ::
  "platform \<Rightarrow> (nat \<Rightarrow> string) \<Rightarrow> string \<Rightarrow> type_map \<Rightarrow> info \<Rightarrow> filesystem \<times> nat \<Rightarrow> js_error + filesystem \<times> nat" where
  "writeDoc pl clock hugoApiDocsPath typeMap i (fs, n) =
     (case ensureDir pl fs (categoryDir pl hugoApiDocsPath i) of
        Inl e \<Rightarrow> Inl e
      | Inr fs1 \<Rightarrow>
          (case ensureIndex pl clock (category (base i)) (indexFile pl hugoApiDocsPath i) (fs1, n + 1) of
             Inl e \<Rightarrow> Inl e
           | Inr (fs2, n') \<Rightarrow>
               (case writeFileSync pl fs2 (docFile pl hugoApiDocsPath i) (render (clock n) i typeMap) of
                  Inl e \<Rightarrow> Inl e
                | Inr fs3 \<Rightarrow> Inr (fs3, n'))))"

fun writeAll ::
  "platform \<Rightarrow> (nat \<Rightarrow> string) \<Rightarrow> string \<Rightarrow> type_map \<Rightarrow> info list \<Rightarrow> filesystem \<times> nat \<Rightarrow> js_error + filesystem \<times> nat" where
  "writeAll pl clock hugoApiDocsPath typeMap [] st = Inr st"
| "writeAll pl clock hugoApiDocsPath typeMap (i # is) st =
     (case writeDoc pl clock hugoApiDocsPath typeMap i st of
        Inl e \<Rightarrow> Inl e
      | Inr st' \<Rightarrow> writeAll pl clock hugoApiDocsPath typeMap is st')"

text \<open>\<open>generateDocs\<close> on source files already read and parsed. It returns the type map,
  the file system and the number of time stamps taken; what it prints is left out.\<close>

definition generateDocs ::
  "platform \<Rightarrow> (nat \<Rightarrow> string) \<Rightarrow> source_file list \<Rightarrow> string \<Rightarrow> type_map \<Rightarrow> filesystem \<times> nat
     \<Rightarrow> js_error + type_map \<times> filesystem \<times> nat" where
  "generateDocs pl clock sourceFiles hugoApiDocsPath typeMap st =
     (case parseAll (getStatementsWithSourceLocation sourceFiles) typeMap of
        Inl e \<Rightarrow> Inl e
      | Inr (rs, typeMap') \<Rightarrow>
          (case writeAll pl clock hugoApiDocsPath typeMap' (declarationInfos rs) st of
             Inl e \<Rightarrow> Inl e
           | Inr (fs', n') \<Rightarrow> Inr (typeMap', fs', n')))"

text \<open>The script without the watch mode: an empty type map, the pre-pass, one
  generation pass.\<close>

definition pipeline ::
  "platform \<Rightarrow> (nat \<Rightarrow> string) \<Rightarrow> source_file list \<Rightarrow> string \<Rightarrow> filesystem
     \<Rightarrow> js_error + type_map \<times> filesystem \<times> nat" where
  "pipeline pl clock sourceFiles outputPath fs =
     (case deleteGeneratedDocs pl outputPath fs of
        Inl e \<Rightarrow> Inl e
      | Inr (fs', deleteCount) \<Rightarrow> generateDocs pl clock sourceFiles outputPath [] (fs', 0))"

section \<open>Notions the theorems are stated with\<close>

text \<open>
  \<open>dispatches tags\<close>: no tag name ends the dispatch in a TypeError. \<open>tagsNamed\<close> and
  \<open>hasTag\<close> select and test tags by name. \<open>slugSpec\<close> is the slug in the words of the
  specification: a hyphen before every capital letter but a leading one, then lower
  case. \<open>memberText\<close> is what one tag adds to the description of a member, and
  \<open>lastDefault\<close> the default value a member's tags leave.
\<close>

definition dispatches :: "jsdoc_tag list \<Rightarrow> bool" where
  "dispatches tags = list_all (\<lambda>t. tagName t \<notin> set inheritedThrowing) tags"

definition tagsNamed :: "string \<Rightarrow> jsdoc_tag list \<Rightarrow> jsdoc_tag list" where
  "tagsNamed name tags = filter (\<lambda>t. tagName t = name) tags"










definition step :: "'s tag_matcher \<Rightarrow> jsdoc_tag \<Rightarrow> 's \<Rightarrow> 's" where
  "step m t s = (case map_of m (tagName t) of Some h \<Rightarrow> h t s | None \<Rightarrow> s)"

text \<open>
  Two outputs are the same but for the date when they are equal, or are one text with,
  at the same place in its \<open>date:\<close> line, the \<open>k\<close>-th reading of either clock.
\<close>

definition sameButDate :: "(nat \<Rightarrow> string) \<Rightarrow> (nat \<Rightarrow> string) \<Rightarrow> string option \<Rightarrow> string option \<Rightarrow> bool" where
  "sameButDate clock1 clock2 x y =
     (x = y \<or>
      (\<exists>k pre post.
          x = Some (pre @ ''\<newline>date: '' @ clock1 k @ ''\<newline>showtoc: '' @ post) \<and>
          y = Some (pre @ ''\<newline>date: '' @ clock2 k @ ''\<newline>showtoc: '' @ post)))"

text \<open>A platform to run the model on: paths joined with a slash, the parent of a path
  being what stands before its last slash, and a walker that returns a given list.\<close>

definition examplePlatform :: "string list \<Rightarrow> platform" where
  "examplePlatform listing =
     \<lparr> path_join = (\<lambda>a b. a @ ''/'' @ b),
       parent = (\<lambda>p. rev (drop 1 (dropWhile (\<lambda>c. c \<noteq> CHR ''/'') (rev p)))),
       klawSync = (\<lambda>fs root. listing) \<rparr>"

definition exampleClock :: "string \<Rightarrow> nat \<Rightarrow> string" where
  "exampleClock year k = year @ ''-01-01T00:00:0'' @ decimal k @ ''.000Z''"

definition sameFsButDate :: "(nat \<Rightarrow> string) \<Rightarrow> (nat \<Rightarrow> string) \<Rightarrow> filesystem \<Rightarrow> filesystem \<Rightarrow> bool" where
  "sameFsButDate clock1 clock2 fs1 fs2 =
     (dirs fs1 = dirs fs2 \<and> (\<forall>p. sameButDate clock1 clock2 (files fs1 p) (files fs2 p)))"

definition sameState :: "(nat \<Rightarrow> string) \<Rightarrow> (nat \<Rightarrow> string) \<Rightarrow> filesystem \<times> nat \<Rightarrow> filesystem \<times> nat \<Rightarrow> bool" where
  "sameState c1 c2 s t = (snd s = snd t \<and> sameFsButDate c1 c2 (fst s) (fst t))"

text \<open>An output tree with a generated document and a hand-written one, and sources with
  an interface that refers to a type alias declared after it.\<close>

definition exampleTree :: filesystem where
  "exampleTree =
     \<lparr> dirs = {''out'', ''out/common''},
       files = [''out/common/foo.md'' \<mapsto> generateFrontMatter ''2019'' ''Foo'' (Num 10) True @ ''# Foo'',
                ''out/common/notes.md'' \<mapsto> ''# Notes, written by hand''] \<rparr>"

definition exampleListing :: "string list" where
  "exampleListing = [''out/common/foo.md'', ''out/common/notes.md'']"

definition categoryCommon :: jsdoc_tag where
  "categoryCommon = \<lparr>tagName = ''docsCategory'', comment = Some ''common''\<rparr>"

definition exampleSources :: "source_file list" where
  "exampleSources =
     [\<lparr> sf_fileName = ''/repo/server/src/common/bar.ts'',
         sf_statements =
           [(InterfaceDeclaration
               \<lparr>decl_name = ''Bar'', decl_typeParameters = None, decl_tags = [categoryCommon]\<rparr>
               [PropertySignature
                  \<lparr>sig_name = ''foo'', sig_text = ''foo: Foo;'', sig_tags = [], sig_type = Some '' Foo''\<rparr>],
             2),
            (TypeAliasDeclaration
               \<lparr>decl_name = ''Foo'', decl_typeParameters = None, decl_tags = [categoryCommon]\<rparr>
               '' string'',
             6)] \<rparr>]"

definition exampleBar :: info where
  "exampleBar =
     InterfaceInfo
       \<lparr>sourceFile = ''/server/src/common/bar.ts'', sourceLine = 3, title = ''Bar'', fullText = ''Bar'',
        weight = Num 10, category = ''common'', description = [], fileName = ''bar''\<rparr>
       [PropertyInfo \<lparr>m_name = ''foo'', m_description = [], m_type = ''Foo'', m_fullText = ''foo: Foo;''\<rparr> []]"

definition exampleFoo :: info where
  "exampleFoo =
     TypeAliasInfo
       \<lparr>sourceFile = ''/server/src/common/bar.ts'', sourceLine = 7, title = ''Foo'', fullText = ''Foo'',
        weight = Num 10, category = ''common'', description = [], fileName = ''foo''\<rparr>
       ''string''"

text \<open>A source whose one declaration is named \<open>_index\<close>.\<close>

definition indexNamedSources :: "source_file list" where
  "indexNamedSources =
     [\<lparr> sf_fileName = ''/repo/server/src/common/index.ts'',
         sf_statements =
           [(TypeAliasDeclaration
               \<lparr>decl_name = ''_index'', decl_typeParameters = None, decl_tags = [categoryCommon]\<rparr>
               '' string'',
             0)] \<rparr>]"

definition indexNamed :: info where
  "indexNamed =
     TypeAliasInfo
       \<lparr>sourceFile = ''/server/src/common/index.ts'', sourceLine = 1, title = ''_index'',
        fullText = ''_index'', weight = Num 10, category = ''common'', description = [],
        fileName = ''_index''\<rparr>
       ''string''"

section \<open>Tag dispatch, analysed\<close>

lemma parseTags_fold:
  "parseTags tags m st =
     (if list_all (\<lambda>t. map_of m (tagName t) \<noteq> None \<or> tagName t \<notin> set inheritedThrowing) tags
      then Inr (fold (step m) tags st)
      else Inl TypeError)"
  by (induction tags arbitrary: st) (auto simp: step_def split: option.splits)

lemma parseTags_dispatch:
  assumes "fst ` set m \<inter> set inheritedThrowing = {}"
  shows "parseTags tags m st =
           (if dispatches tags then Inr (fold (step m) tags st) else Inl TypeError)"
proof -
  have "(map_of m x \<noteq> None \<or> x \<notin> set inheritedThrowing) = (x \<notin> set inheritedThrowing)" for x
    using assms by (auto dest!: map_of_SomeD)
  then show ?thesis
    by (simp add: parseTags_fold dispatches_def)
qed

lemma parseTags_append:
  "parseTags (xs @ ys) m st =
     (case parseTags xs m st of Inl e \<Rightarrow> Inl e | Inr st' \<Rightarrow> parseTags ys m st')"
  by (induction xs arbitrary: st) (auto split: option.splits)


lemma fold_concat:
  "fold (step [(k, \<lambda>t s. s @ f t)]) tags st = st @ concat (map f (tagsNamed k tags))"
  by (induction tags arbitrary: st) (auto simp: tagsNamed_def step_def)



lemma getDeclarationDescription_eq:
  "getDeclarationDescription d =
     (if dispatches (decl_tags d)
      then Inr (concat (map (\<lambda>t. toStringOpt (comment t)) (tagsNamed ''description'' (decl_tags d))))
      else Inl TypeError)"
  unfolding getDeclarationDescription_def
  by (subst parseTags_dispatch) (simp_all add: inheritedThrowing_def fold_concat)



























section \<open>Extraction: category, weight, description, slug\<close>

lemma slug_examples:
  "slug ''ProductVariant'' = ''product-variant''"
  "slug ''ShippingMethodQuote'' = ''shipping-method-quote''"
  by code_simp+

text \<open>
  C10. A description tag of a declaration that carries no comment text contributes the
  literal text \<open>undefined\<close> to the extracted description: the description is the
  concatenation, in order, of what each description tag contributes, its comment or else
  \<open>undefined\<close> (when some tag name makes the dispatch throw, nothing is extracted). The
  handlers of a member guard the comment: there the same tag changes nothing.
\<close>

theorem declaration_description_undefined:
  "getDeclarationDescription d =
     (if dispatches (decl_tags d)
      then Inr (concat (map (\<lambda>t. case comment t of None \<Rightarrow> ''undefined'' | Some c \<Rightarrow> c)
                            (tagsNamed ''description'' (decl_tags d))))
      else Inl TypeError)
   \<and> parseTags (tags @ [\<lparr>tagName = ''description'', comment = None\<rparr>]) memberMatcher st
       = parseTags tags memberMatcher st"
proof
  show "getDeclarationDescription d =
     (if dispatches (decl_tags d)
      then Inr (concat (map (\<lambda>t. case comment t of None \<Rightarrow> ''undefined'' | Some c \<Rightarrow> c)
                            (tagsNamed ''description'' (decl_tags d))))
      else Inl TypeError)"
    by (simp add: getDeclarationDescription_eq toStringOpt_def)
next
  show "parseTags (tags @ [\<lparr>tagName = ''description'', comment = None\<rparr>]) memberMatcher st
          = parseTags tags memberMatcher st"
    by (cases st) (auto simp: parseTags_append memberMatcher_def orElse_def split: sum.splits)
qed

theorem declaration_description_undefined_witness:
  "getDeclarationDescription
     \<lparr>decl_name = ''Foo'', decl_typeParameters = None,
      decl_tags = [\<lparr>tagName = ''description'', comment = Some ''Hello ''\<rparr>,
                   \<lparr>tagName = ''description'', comment = None\<rparr>]\<rparr>
   = Inr ''Hello undefined''"
  using declaration_description_undefined
    [of "\<lparr>decl_name = ''Foo'', decl_typeParameters = None,
          decl_tags = [\<lparr>tagName = ''description'', comment = Some ''Hello ''\<rparr>,
                       \<lparr>tagName = ''description'', comment = None\<rparr>]\<rparr>" "[]" "([], [])"]
  by (simp add: dispatches_def tagsNamed_def inheritedThrowing_def)









section \<open>Rendering: hyperlinks and default markers\<close>






section \<open>The file system, analysed\<close>

lemma deleteLoop_result:
  assumes "distinct ps" and "\<forall>p\<in>set ps. files fs p \<noteq> None"
  shows "deleteLoop ps fs n =
           Inr (fs\<lparr>files := (\<lambda>p. if p \<in> set ps \<and> isGenerated (the (files fs p)) then None
                                  else files fs p)\<rparr>,
                n + length (filter (\<lambda>p. isGenerated (the (files fs p))) ps))"
  using assms
proof (induction ps arbitrary: fs n)
  case Nil
  then show ?case by simp
next
  case (Cons p ps)
  from Cons.prems obtain c where c: "files fs p = Some c" by auto
  show ?case
  proof (cases "isGenerated c")
    case True
    let ?fs1 = "fs\<lparr>files := (files fs)(p := None)\<rparr>"
    have d: "distinct ps" and e: "\<forall>q\<in>set ps. files ?fs1 q \<noteq> None"
      using Cons.prems by auto
    have same: "\<And>q. q \<in> set ps \<Longrightarrow> files ?fs1 q = files fs q"
      using Cons.prems by auto
    have f: "filter (\<lambda>q. isGenerated (the (files ?fs1 q))) ps
             = filter (\<lambda>q. isGenerated (the (files fs q))) ps"
      using Cons.prems by (intro filter_cong) auto
    have g: "(\<lambda>q. if q \<in> set ps \<and> isGenerated (the (files ?fs1 q)) then None else files ?fs1 q)
             = (\<lambda>q. if q \<in> set (p # ps) \<and> isGenerated (the (files fs q)) then None else files fs q)"
      using True c Cons.prems by (auto simp: fun_eq_iff)
    have step: "deleteLoop (p # ps) fs n = deleteLoop ps ?fs1 (n + 1)"
      using True c by (simp add: readFileSync_def unlinkSync_def)
    have "deleteLoop ps ?fs1 (n + 1) =
            Inr (?fs1\<lparr>files := (\<lambda>q. if q \<in> set (p # ps) \<and> isGenerated (the (files fs q))
                                       then None else files fs q)\<rparr>,
                 n + 1 + length (filter (\<lambda>q. isGenerated (the (files fs q))) ps))"
      using Cons.IH [OF d e, of "n + 1"] by (simp only: f g)
    with step True c show ?thesis by simp
  next
    case False
    have d: "distinct ps" and e: "\<forall>q\<in>set ps. files fs q \<noteq> None"
      using Cons.prems by auto
    have g: "(\<lambda>q. if q \<in> set ps \<and> isGenerated (the (files fs q)) then None else files fs q)
             = (\<lambda>q. if q \<in> set (p # ps) \<and> isGenerated (the (files fs q)) then None else files fs q)"
      using False c by (auto simp: fun_eq_iff)
    have step: "deleteLoop (p # ps) fs n = deleteLoop ps fs n"
      using False c by (simp add: readFileSync_def)
    have "deleteLoop ps fs n =
            Inr (fs\<lparr>files := (\<lambda>q. if q \<in> set (p # ps) \<and> isGenerated (the (files fs q))
                                    then None else files fs q)\<rparr>,
                 n + length (filter (\<lambda>q. isGenerated (the (files fs q))) ps))"
      using Cons.IH [OF d e, of n] by (simp only: g)
    with step False c show ?thesis by simp
  qed
qed

lemma ensureDir_Inr:
  "ensureDir pl fs cd = Inr fs1 \<Longrightarrow>
     files fs1 = files fs \<and> (dirs fs1 = dirs fs \<or> dirs fs1 = insert cd (dirs fs))"
  by (auto simp: ensureDir_def mkdirSync_def split: if_splits option.splits)

lemma writeFileSync_Inr:
  "writeFileSync pl fs p c = Inr fs' \<Longrightarrow> fs' = fs\<lparr>files := (files fs)(p \<mapsto> c)\<rparr>"
  by (auto simp: writeFileSync_def split: if_splits option.splits)

lemma ensureIndex_Inr:
  "ensureIndex pl clock cat idx (fs1, k) = Inr (fs2, n') \<Longrightarrow>
     (if existsSync fs1 idx then fs2 = fs1 \<and> n' = k
      else fs2 = fs1\<lparr>files := (files fs1)(idx \<mapsto> indexFileContent (clock k) cat)\<rparr> \<and> n' = k + 1)"
  by (auto split: if_splits sum.splits dest: writeFileSync_Inr)

lemma writeDoc_Inr:
  assumes "writeDoc pl clock root typeMap i (fs, n) = Inr (fs', n')"
  obtains fs1 fs2 where
    "ensureDir pl fs (categoryDir pl root i) = Inr fs1"
    "ensureIndex pl clock (category (base i)) (indexFile pl root i) (fs1, n + 1) = Inr (fs2, n')"
    "writeFileSync pl fs2 (docFile pl root i) (render (clock n) i typeMap) = Inr fs'"
  using assms by (auto split: sum.splits simp del: ensureIndex.simps)

lemma writeDoc_frame:
  assumes "writeDoc pl clock root typeMap i (fs, n) = Inr (fs', n')"
    and "files fs p = Some c" and "docFile pl root i \<noteq> p"
  shows "files fs' p = Some c"
proof -
  from assms(1) obtain fs1 fs2 where
    a: "ensureDir pl fs (categoryDir pl root i) = Inr fs1" and
    b: "ensureIndex pl clock (category (base i)) (indexFile pl root i) (fs1, n + 1) = Inr (fs2, n')" and
    c: "writeFileSync pl fs2 (docFile pl root i) (render (clock n) i typeMap) = Inr fs'"
    by (rule writeDoc_Inr)
  from ensureDir_Inr [OF a] assms(2) have 1: "files fs1 p = Some c" by simp
  from ensureIndex_Inr [OF b] 1 have 2: "files fs2 p = Some c"
    by (auto simp: existsSync_def split: if_splits)
  from writeFileSync_Inr [OF c] 2 assms(3) show ?thesis by simp
qed

lemma writeAll_frame:
  "writeAll pl clock root typeMap is st = Inr st' \<Longrightarrow> files (fst st) p = Some c \<Longrightarrow>
     \<forall>j\<in>set is. docFile pl root j \<noteq> p \<Longrightarrow> files (fst st') p = Some c"
proof (induction "is" arbitrary: st)
  case Nil
  then show ?case by simp
next
  case (Cons i "is")
  from Cons.prems(1) obtain st1 where
    1: "writeDoc pl clock root typeMap i st = Inr st1" and
    2: "writeAll pl clock root typeMap is st1 = Inr st'"
    by (auto split: sum.splits)
  obtain fs n where st: "st = (fs, n)" by (cases st)
  obtain fs1 n1 where st1: "st1 = (fs1, n1)" by (cases st1)
  from writeDoc_frame [of pl clock root typeMap i fs n fs1 n1 p c] 1 Cons.prems st st1
  have "files (fst st1) p = Some c" by simp
  from Cons.IH [OF 2 this] Cons.prems(3) show ?case by simp
qed




lemma generateFrontMatter_date:
  \<open>generateFrontMatter d t w toc =
     (''---\<newline>title: "'' @ t @ ''"\<newline>weight: '' @ numberToString w) @
     ''\<newline>date: '' @ d @ ''\<newline>showtoc: '' @
     ((if toc then ''true'' else ''false'') @
      ''\<newline>generated: true\<newline>---\<newline>'' @
      ''<!-- This file was generated from the Vendure TypeScript source. Do not modify. Instead, re-run "generate-docs" -->\<newline>'')\<close>
  by (simp add: generateFrontMatter_def)

lemma rel_sumE:
  assumes "rel_sum (=) R x y"
  obtains (Err) e where "x = Inl e" "y = Inl e"
        | (Ok) a b where "x = Inr a" "y = Inr b" "R a b"
  using assms by (cases x; cases y) auto

lemma append_date: "(P @ a @ d @ b @ Q) @ R = P @ a @ d @ b @ Q @ R"
  by simp

lemma render_frontMatter:
  "\<exists>R. \<forall>d. render d i typeMap = generateFrontMatter d (title (base i)) (weight (base i)) True @ R"
proof (cases i)
  case (InterfaceInfo x ms)
  show ?thesis
    unfolding InterfaceInfo render.simps base.simps renderInterface_def
    by (intro exI allI) (rule refl)
next
  case (TypeAliasInfo x ty)
  show ?thesis
    unfolding TypeAliasInfo render.simps base.simps renderTypeAlias_def
    by (intro exI allI) (rule refl)
qed

lemma render_date:
  "\<exists>pre post. \<forall>d. render d i typeMap = pre @ ''\<newline>date: '' @ d @ ''\<newline>showtoc: '' @ post"
proof -
  from render_frontMatter [of i typeMap] obtain R where
    R: "\<And>d. render d i typeMap = generateFrontMatter d (title (base i)) (weight (base i)) True @ R"
    by blast
  show ?thesis
    unfolding R generateFrontMatter_date append_date
    by (intro exI allI) (rule refl)
qed

lemma indexFileContent_date:
  "\<exists>pre post. \<forall>d. indexFileContent d cat = pre @ ''\<newline>date: '' @ d @ ''\<newline>showtoc: '' @ post"
  unfolding indexFileContent_def generateFrontMatter_date append_date
  by (intro exI allI) (rule refl)

lemma sameButDate_render:
  "sameButDate c1 c2 (Some (render (c1 k) i typeMap)) (Some (render (c2 k) i typeMap))"
  using render_date [of i typeMap] unfolding sameButDate_def by blast

lemma sameButDate_index:
  "sameButDate c1 c2 (Some (indexFileContent (c1 k) cat)) (Some (indexFileContent (c2 k) cat))"
  using indexFileContent_date [of cat] unfolding sameButDate_def by blast

lemma sameButDate_None: "sameButDate c1 c2 x y \<Longrightarrow> (x = None) = (y = None)"
  by (auto simp: sameButDate_def)

lemma sameFs_refl: "sameFsButDate c1 c2 fs fs"
  by (simp add: sameFsButDate_def sameButDate_def)

lemma sameFs_exists:
  "sameFsButDate c1 c2 fs1 fs2 \<Longrightarrow> existsSync fs1 p = existsSync fs2 p"
  using sameButDate_None [of c1 c2 "files fs1 p" "files fs2 p"]
  by (auto simp: sameFsButDate_def existsSync_def)

lemma sameFs_noParent:
  "sameFsButDate c1 c2 fs1 fs2 \<Longrightarrow> noParent pl fs1 p = noParent pl fs2 p"
  using sameButDate_None [of c1 c2 "files fs1 (parent pl p)" "files fs2 (parent pl p)"]
  by (auto simp: sameFsButDate_def noParent_def)

lemma sameFs_mkdir:
  assumes "sameFsButDate c1 c2 fs1 fs2"
  shows "rel_sum (=) (sameFsButDate c1 c2) (mkdirSync pl fs1 p) (mkdirSync pl fs2 p)"
  using assms sameFs_exists [OF assms, of p] sameFs_noParent [OF assms, of pl p]
  by (auto simp: mkdirSync_def sameFsButDate_def split: option.splits)

lemma sameFs_write:
  assumes "sameFsButDate c1 c2 fs1 fs2" and "sameButDate c1 c2 (Some x) (Some y)"
  shows "rel_sum (=) (sameFsButDate c1 c2) (writeFileSync pl fs1 p x) (writeFileSync pl fs2 p y)"
  using assms sameFs_noParent [OF assms(1), of pl p]
  by (auto simp: writeFileSync_def sameFsButDate_def split: option.splits)

lemma sameFs_ensureDir:
  assumes "sameFsButDate c1 c2 fs1 fs2"
  shows "rel_sum (=) (sameFsButDate c1 c2) (ensureDir pl fs1 p) (ensureDir pl fs2 p)"
  using assms sameFs_exists [OF assms, of p] sameFs_mkdir [OF assms, of pl p]
  by (simp add: ensureDir_def)

lemma sameFs_ensureIndex:
  assumes "sameFsButDate c1 c2 fs1 fs2"
  shows "rel_sum (=) (sameState c1 c2)
           (ensureIndex pl c1 cat p (fs1, k)) (ensureIndex pl c2 cat p (fs2, k))"
proof (cases "existsSync fs1 p")
  case True
  with sameFs_exists [OF assms, of p] assms show ?thesis by (simp add: sameState_def)
next
  case False
  with sameFs_exists [OF assms, of p] have f2: "\<not> existsSync fs2 p" by simp
  from sameFs_write [OF assms sameButDate_index, of pl p k cat] False f2
  show ?thesis
    by (cases "writeFileSync pl fs1 p (indexFileContent (c1 k) cat)";
        cases "writeFileSync pl fs2 p (indexFileContent (c2 k) cat)")
       (simp_all add: sameState_def)
qed

lemma sameFs_writeDoc:
  assumes "sameState c1 c2 s t"
  shows "rel_sum (=) (sameState c1 c2)
           (writeDoc pl c1 root typeMap i s) (writeDoc pl c2 root typeMap i t)"
proof -
  obtain fs1 n where s: "s = (fs1, n)" by (cases s)
  obtain fs2 m where t: "t = (fs2, m)" by (cases t)
  from assms s t have nm: "m = n" and r: "sameFsButDate c1 c2 fs1 fs2"
    by (simp_all add: sameState_def)
  let ?cd = "categoryDir pl root i" and ?idx = "indexFile pl root i" and ?doc = "docFile pl root i"
  from sameFs_ensureDir [OF r, of pl ?cd]
  show ?thesis
  proof (cases rule: rel_sumE)
    case (Err e)
    then show ?thesis unfolding s t nm by simp
  next
    case (Ok a b)
    from sameFs_ensureIndex [OF Ok(3), of pl "category (base i)" ?idx "n + 1"]
    show ?thesis
    proof (cases rule: rel_sumE)
      case (Err e)
      with Ok(1,2) show ?thesis unfolding s t nm by (simp del: ensureIndex.simps)
    next
      case inner: (Ok u v)
      obtain a2 k where u: "u = (a2, k)" by (cases u)
      obtain b2 k' where v: "v = (b2, k')" by (cases v)
      from inner(3) u v have kk: "k' = k" and r2: "sameFsButDate c1 c2 a2 b2"
        by (simp_all add: sameState_def)
      from sameFs_write [OF r2 sameButDate_render, of pl ?doc n i typeMap]
      show ?thesis
        using Ok(1,2) inner(1,2) u v kk
        unfolding s t nm
        by (cases "writeFileSync pl a2 ?doc (render (c1 n) i typeMap)";
            cases "writeFileSync pl b2 ?doc (render (c2 n) i typeMap)")
           (simp_all add: sameState_def del: ensureIndex.simps)
    qed
  qed
qed

lemma sameFs_writeAll:
  "sameState c1 c2 s t \<Longrightarrow>
     rel_sum (=) (sameState c1 c2)
       (writeAll pl c1 root typeMap is s) (writeAll pl c2 root typeMap is t)"
proof (induction "is" arbitrary: s t)
  case Nil
  then show ?case by simp
next
  case (Cons i "is")
  from sameFs_writeDoc [OF Cons.prems, of pl root typeMap i]
  show ?case
  proof (cases rule: rel_sumE)
    case (Err e)
    then show ?thesis by simp
  next
    case (Ok u v)
    from Cons.IH [OF Ok(3)] Ok(1,2) show ?thesis by simp
  qed
qed



section \<open>The output tree\<close>

text \<open>
  C5. When the walker lists each regular file of the output tree once, the pre-pass
  returns normally, removes exactly the listed files whose content holds the generated
  marker, counts them, and leaves every other file, and the directories, as they were.
\<close>

theorem deleteGeneratedDocs_deletes_marked_files:
  assumes "distinct (klawSync pl fs outputPath)"
    and "\<forall>p\<in>set (klawSync pl fs outputPath). files fs p \<noteq> None"
  shows "deleteGeneratedDocs pl outputPath fs =
           Inr (fs\<lparr>files := (\<lambda>p. if p \<in> set (klawSync pl fs outputPath) \<and> isGenerated (the (files fs p))
                                  then None else files fs p)\<rparr>,
                length (filter (\<lambda>p. isGenerated (the (files fs p))) (klawSync pl fs outputPath)))"
  unfolding deleteGeneratedDocs_def
  using deleteLoop_result [OF assms, of 0] by simp

theorem deleteGeneratedDocs_deletes_marked_files_witness:
  "\<exists>fs'. deleteGeneratedDocs (examplePlatform exampleListing) ''out'' exampleTree = Inr (fs', 1)
         \<and> dirs fs' = {''out'', ''out/common''}
         \<and> files fs' ''out/common/foo.md'' = None
         \<and> files fs' ''out/common/notes.md'' = Some ''# Notes, written by hand''"
proof -
  let ?pl = "examplePlatform exampleListing"
  have l: "klawSync ?pl exampleTree ''out'' = [''out/common/foo.md'', ''out/common/notes.md'']"
    by (simp add: examplePlatform_def exampleListing_def)
  have d: "distinct (klawSync ?pl exampleTree ''out'')"
    unfolding l by simp
  have e: "\<forall>p\<in>set (klawSync ?pl exampleTree ''out''). files exampleTree p \<noteq> None"
    unfolding l by (simp add: exampleTree_def)
  have g: "isGenerated (the (files exampleTree ''out/common/foo.md''))"
    by code_simp
  have h: "\<not> isGenerated (the (files exampleTree ''out/common/notes.md''))"
    by code_simp
  have n: "files exampleTree ''out/common/notes.md'' = Some ''# Notes, written by hand''"
    by (simp add: exampleTree_def)
  have r: "dirs exampleTree = {''out'', ''out/common''}"
    by (simp add: exampleTree_def)
  from deleteGeneratedDocs_deletes_marked_files [OF d e] g h n r
  show ?thesis unfolding l by simp
qed



text \<open>
  C8. Two runs of the script on the same platform, sources and output tree, which differ
  only in what the clock reads, both throw the same error or both return, with the same
  type map, the same number of time stamps taken, the same directories, and files that
  are pairwise equal or differ only in the text of the \<open>date:\<close> line of the front matter.
\<close>

theorem pipeline_same_but_date:
  "(\<exists>e. pipeline pl clock1 sourceFiles outputPath fs = Inl e
        \<and> pipeline pl clock2 sourceFiles outputPath fs = Inl e)
   \<or> (\<exists>typeMap fs1 fs2 n.
         pipeline pl clock1 sourceFiles outputPath fs = Inr (typeMap, fs1, n)
       \<and> pipeline pl clock2 sourceFiles outputPath fs = Inr (typeMap, fs2, n)
       \<and> sameFsButDate clock1 clock2 fs1 fs2)"
proof (cases "deleteGeneratedDocs pl outputPath fs")
  case (Inl e)
  then show ?thesis by (simp add: pipeline_def)
next
  case (Inr d)
  obtain fs0 deleteCount where d: "d = (fs0, deleteCount)" by (cases d)
  show ?thesis
  proof (cases "parseAll (getStatementsWithSourceLocation sourceFiles) []")
    case (Inl e)
    with Inr d show ?thesis by (simp add: pipeline_def generateDocs_def)
  next
    case parsed: (Inr q)
    obtain rs typeMap' where q: "q = (rs, typeMap')" by (cases q)
    have "sameState clock1 clock2 (fs0, 0) (fs0, 0)"
      by (simp add: sameState_def sameFs_refl)
    from sameFs_writeAll [OF this, of pl outputPath typeMap' "declarationInfos rs"]
    show ?thesis
    proof (cases rule: rel_sumE)
      case (Err e)
      with Inr d parsed q show ?thesis by (simp add: pipeline_def generateDocs_def)
    next
      case w: (Ok u v)
      obtain a k where u: "u = (a, k)" by (cases u)
      obtain b k' where v: "v = (b, k')" by (cases v)
      from w(3) u v have "k' = k" "sameFsButDate clock1 clock2 a b"
        by (simp_all add: sameState_def)
      with Inr d parsed q w(1,2) u v show ?thesis
        by (simp add: pipeline_def generateDocs_def)
    qed
  qed
qed

theorem pipeline_same_but_date_witness:
  "\<exists>typeMap fs1 fs2.
       pipeline (examplePlatform exampleListing) (exampleClock ''2020'') exampleSources ''out'' exampleTree
         = Inr (typeMap, fs1, 3)
     \<and> pipeline (examplePlatform exampleListing) (exampleClock ''2021'') exampleSources ''out'' exampleTree
         = Inr (typeMap, fs2, 3)
     \<and> sameFsButDate (exampleClock ''2020'') (exampleClock ''2021'') fs1 fs2"
proof -
  let ?run = "\<lambda>year. pipeline (examplePlatform exampleListing) (exampleClock year) exampleSources
                        ''out'' exampleTree"
  have ok: "\<not> isl (?run ''2020'')" by code_simp
  have n: "snd (snd (projr (?run ''2020''))) = 3" by code_simp
  from pipeline_same_but_date
         [of "examplePlatform exampleListing" "exampleClock ''2020''" exampleSources "''out''"
             exampleTree "exampleClock ''2021''"]
  show ?thesis
  proof
    assume "\<exists>e. ?run ''2020'' = Inl e \<and> ?run ''2021'' = Inl e"
    with ok show ?thesis by auto
  next
    assume "\<exists>typeMap fs1 fs2 n. ?run ''2020'' = Inr (typeMap, fs1, n)
              \<and> ?run ''2021'' = Inr (typeMap, fs2, n)
              \<and> sameFsButDate (exampleClock ''2020'') (exampleClock ''2021'') fs1 fs2"
    then obtain typeMap fs1 fs2 k where
      r: "?run ''2020'' = Inr (typeMap, fs1, k)" "?run ''2021'' = Inr (typeMap, fs2, k)"
         "sameFsButDate (exampleClock ''2020'') (exampleClock ''2021'') fs1 fs2"
      by blast
    from n r(1) have "k = 3" by simp
    with r show ?thesis by blast
  qed
qed

text \<open>
  C9, as the code has it. In a turn of the write loop that returns normally: the document
  of the declaration is at its path afterwards, whatever was there; an index document
  that exists is left as it is, and one that does not exist is written with the front
  matter and the heading of the category, both provided the document of the declaration
  is not written to the path of the index; and a file that exists after the turn keeps
  its content through the rest of the run unless a later declaration's document is
  written to its path.
\<close>

theorem index_document_created_once:
  assumes "writeDoc pl clock root typeMap i (fs, n) = Inr (fs', n')"
  shows "files fs' (docFile pl root i) = Some (render (clock n) i typeMap)
     \<and> (existsSync fs (indexFile pl root i) \<and> docFile pl root i \<noteq> indexFile pl root i \<longrightarrow>
          files fs' (indexFile pl root i) = files fs (indexFile pl root i))
     \<and> (\<not> existsSync fs (indexFile pl root i) \<and> indexFile pl root i \<noteq> categoryDir pl root i
          \<and> docFile pl root i \<noteq> indexFile pl root i \<longrightarrow>
          files fs' (indexFile pl root i) = Some (indexFileContent (clock (n + 1)) (category (base i))))
     \<and> (\<forall>p c rest st''. files fs' p = Some c \<and> (\<forall>j\<in>set rest. docFile pl root j \<noteq> p)
          \<and> writeAll pl clock root typeMap rest (fs', n') = Inr st'' \<longrightarrow> files (fst st'') p = Some c)"
proof -
  from assms obtain fs1 fs2 where
    a: "ensureDir pl fs (categoryDir pl root i) = Inr fs1" and
    b: "ensureIndex pl clock (category (base i)) (indexFile pl root i) (fs1, n + 1) = Inr (fs2, n')" and
    c: "writeFileSync pl fs2 (docFile pl root i) (render (clock n) i typeMap) = Inr fs'"
    by (rule writeDoc_Inr)
  note A = ensureDir_Inr [OF a] and B = ensureIndex_Inr [OF b] and C = writeFileSync_Inr [OF c]
  have 1: "files fs' (docFile pl root i) = Some (render (clock n) i typeMap)"
    using C by simp
  have 2: "files fs' (indexFile pl root i) = files fs (indexFile pl root i)"
    if "existsSync fs (indexFile pl root i)" "docFile pl root i \<noteq> indexFile pl root i"
  proof -
    from that(1) A have "existsSync fs1 (indexFile pl root i)"
      by (auto simp: existsSync_def)
    with B have "fs2 = fs1" by simp
    with A C that(2) show ?thesis by simp
  qed
  have 3: "files fs' (indexFile pl root i) = Some (indexFileContent (clock (n + 1)) (category (base i)))"
    if "\<not> existsSync fs (indexFile pl root i)" "indexFile pl root i \<noteq> categoryDir pl root i"
       "docFile pl root i \<noteq> indexFile pl root i"
  proof -
    from that(1,2) A have "\<not> existsSync fs1 (indexFile pl root i)"
      by (auto simp: existsSync_def)
    with B have "files fs2 (indexFile pl root i) = Some (indexFileContent (clock (n + 1)) (category (base i)))"
      by simp
    with C that(3) show ?thesis by simp
  qed
  have 4: "files (fst st'') p = Some c"
    if "files fs' p = Some c" "\<forall>j\<in>set rest. docFile pl root j \<noteq> p"
       "writeAll pl clock root typeMap rest (fs', n') = Inr st''" for p c rest st''
    using writeAll_frame [OF that(3) _ that(2), of c] that(1) by simp
  from 1 2 3 4 show ?thesis by blast
qed

theorem index_document_created_once_witness:
  "files (fst (projr (writeAll (examplePlatform exampleListing) (exampleClock ''2020'') ''out'' []
                        [exampleFoo, exampleBar] (exampleTree, 0))))
         ''out/common/_index.md''
   = Some (indexFileContent (exampleClock ''2020'' 1) ''common'')"
proof -
  let ?pl = "examplePlatform exampleListing" and ?c = "exampleClock ''2020''"
  let ?idx = "indexFile ?pl ''out'' exampleFoo"
  have "\<not> isl (writeDoc ?pl ?c ''out'' [] exampleFoo (exampleTree, 0))" by code_simp
  then obtain fs1 n1 where w1: "writeDoc ?pl ?c ''out'' [] exampleFoo (exampleTree, 0) = Inr (fs1, n1)"
    by (cases "writeDoc ?pl ?c ''out'' [] exampleFoo (exampleTree, 0)") auto
  note t = index_document_created_once [OF w1]
  have i: "?idx = ''out/common/_index.md''" by code_simp
  have c: "category (base exampleFoo) = ''common''" by code_simp
  have h1: "\<not> existsSync exampleTree ?idx" by code_simp
  have h2: "?idx \<noteq> categoryDir ?pl ''out'' exampleFoo" by code_simp
  have h3: "docFile ?pl ''out'' exampleFoo \<noteq> ?idx" by code_simp
  have h4: "docFile ?pl ''out'' exampleBar \<noteq> ?idx" by code_simp
  from t h1 h2 h3 have created: "files fs1 ?idx = Some (indexFileContent (?c (0 + 1)) (category (base exampleFoo)))"
    by blast
  have "\<not> isl (writeAll ?pl ?c ''out'' [] [exampleFoo, exampleBar] (exampleTree, 0))" by code_simp
  moreover have u: "writeAll ?pl ?c ''out'' [] [exampleFoo, exampleBar] (exampleTree, 0)
                  = writeAll ?pl ?c ''out'' [] [exampleBar] (fs1, n1)"
    using w1 by (simp del: writeDoc.simps)
  ultimately obtain st'' where w2: "writeAll ?pl ?c ''out'' [] [exampleBar] (fs1, n1) = Inr st''"
    by (cases "writeAll ?pl ?c ''out'' [] [exampleBar] (fs1, n1)") auto
  from h4 have h5: "\<forall>j\<in>set [exampleBar]. docFile ?pl ''out'' j \<noteq> ?idx" by simp
  from t created h5 w2
  have "files (fst st'') ?idx = Some (indexFileContent (?c (0 + 1)) (category (base exampleFoo)))"
    by blast
  then show ?thesis unfolding u w2 i c by simp
qed

theorem index_document_overwritten_counterexample:
  "\<not> isl (generateDocs (examplePlatform exampleListing) (exampleClock ''2020'') indexNamedSources
             ''out'' [] (exampleTree, 0))
   \<and> files exampleTree ''out/common/_index.md'' = None
   \<and> files (fst (snd (projr
        (generateDocs (examplePlatform exampleListing) (exampleClock ''2020'') indexNamedSources
           ''out'' [] (exampleTree, 0)))))
        ''out/common/_index.md''
      = Some (render (exampleClock ''2020'' 0) indexNamed [(''_index'', ''common/_index'')])
   \<and> render (exampleClock ''2020'' 0) indexNamed [(''_index'', ''common/_index'')]
      \<noteq> indexFileContent (exampleClock ''2020'' 1) ''common''"
  by code_simp

end
